theory Spec2Isabelle
  imports Complex_Main "HOL-Library.Word"
begin

section \<open>Tensors, errors and the objects of the rendering library\<close>

text \<open>
  The module \<^verbatim>\<open>utils/renderer_utils.py\<close> holds three classes, \<^verbatim>\<open>Mesh_Renderer\<close>,
  \<^verbatim>\<open>Point_Renderer\<close> and \<^verbatim>\<open>Texture_Renderer\<close>, each an adapter around the rendering
  library pytorch3d. Tensors are nested lists of reals, integers or booleans, outermost
  dimension first. Where the last dimension has a fixed size (a point, a pixel) it is a
  tuple, so that the shape is part of the type. Moving a tensor to a device
  (\<^verbatim>\<open>.to(self.device)\<close>) does not change its values and is the identity here.
\<close>

type_synonym vec3 = "real \<times> real \<times> real"
type_synonym rgba = "real \<times> real \<times> real \<times> real"
type_synonym tensor2 = "real list list"
type_synonym tensor3 = "real list list list"
type_synonym tensor4 = "real list list list list"

text \<open>
  The exceptions a call can end with. \<open>NotImplementedError\<close> is the one the module raises
  itself; \<open>AttributeError\<close>, \<open>IndexError\<close> and \<open>RuntimeError\<close> are what Python and the
  tensor library raise on \<open>None.shape\<close>, on an index out of range and on shapes that do
  not fit; \<open>External\<close> carries the message of an exception raised inside the library
  (the loader, a renderer), which the module lets through.
\<close>

datatype error =
    NotImplementedError string
  | AttributeError
  | IndexError
  | RuntimeError
  | External string

definition and_then :: "error + 'a \<Rightarrow> ('a \<Rightarrow> error + 'b) \<Rightarrow> error + 'b" where
  "and_then r f = (case r of Inl e \<Rightarrow> Inl e | Inr x \<Rightarrow> f x)"

definition external :: "string + 'a \<Rightarrow> error + 'a" where
  "external r = (case r of Inl m \<Rightarrow> Inl (External m) | Inr x \<Rightarrow> Inr x)"

text \<open>The two camera classes, with the arguments they are constructed from:
  \<^verbatim>\<open>PerspectiveCameras(principal_point, focal_length, image_size, device, R, T)\<close> and
  \<^verbatim>\<open>FoVPerspectiveCameras(device, R, T, znear, zfar)\<close>.\<close>

datatype cameras =
    PerspectiveCameras tensor2 "tensor2 option" tensor2 string tensor3 tensor2
  | FoVPerspectiveCameras string tensor3 tensor2 real real

record RasterizationSettings =
  rs_image_size :: int
  blur_radius :: real
  faces_per_pixel :: nat
  perspective_correct :: "bool option"
  cull_backfaces :: bool

record PointsRasterizationSettings =
  prs_image_size :: int
  radius :: real
  points_per_pixel :: nat

datatype lights = PointLights string "real list list" | AmbientLights string

datatype textures =
    TexturesVertex "vec3 list list"
  | TexturesUV tensor4 "int list list list" "(real \<times> real) list list"

record Meshes =
  mesh_verts :: "vec3 list list"
  mesh_faces :: "int list list list"
  mesh_textures :: textures

record Pointclouds =
  pc_points :: "vec3 list list"
  pc_features :: "vec3 list list"

text \<open>What \<^verbatim>\<open>load_obj(path, load_textures=False)\<close> returns, as far as the module reads it:
  \<^verbatim>\<open>faces.verts_idx\<close>, \<^verbatim>\<open>faces.textures_idx\<close> and \<^verbatim>\<open>aux.verts_uvs\<close>.\<close>

record obj_file =
  verts_idx :: "int list list"
  textures_idx :: "int list list"
  obj_verts_uvs :: "(real \<times> real) list"

text \<open>
  Camera objects that a renderer keeps in a field live in a store: a list of objects,
  a reference being an index into it. Constructing an object appends it, so a new object
  has a reference no earlier object has.
\<close>

type_synonym ref = nat
type_synonym heap = "cameras list"

definition alloc :: "heap \<Rightarrow> cameras \<Rightarrow> ref \<times> heap" where
  "alloc h c = (length h, h @ [c])"

record PointsRasterizer =
  rast_cameras :: ref
  rast_settings :: PointsRasterizationSettings

datatype compositor = AlphaCompositor

record PointsRenderer =
  rasterizer :: PointsRasterizer
  compositor :: compositor

text \<open>
  The library itself is not part of the module. Its entry points are the fields of a record
  that every operation of the model takes as its first argument:
  \<^item> \<open>load_obj\<close> reads a mesh file, or fails with a message;
  \<^item> \<open>look_at_view_transform\<close> gives the rotation and translation of an orbital view
    (distance, elevation, azimuth);
  \<^item> \<open>phong_renderer cameras settings lights device mesh\<close> is
    \<^verbatim>\<open>MeshRenderer(MeshRasterizer(cameras, settings), SoftPhongShader(cameras, lights, device))(mesh)\<close>,
    an RGBA image per batch element (batch, height, width), or an exception;
  \<^item> \<open>silhouette_renderer cameras settings mesh\<close> is the same with
    \<^verbatim>\<open>SoftSilhouetteShader()\<close>;
  \<^item> \<open>points_renderer r h c cloud\<close> is \<^verbatim>\<open>r(cloud, cameras=c)\<close> for a \<^verbatim>\<open>PointsRenderer\<close>
    \<open>r\<close>, in the store \<open>h\<close>, with the reference \<open>c\<close> as the keyword argument: an RGB
    image per batch element, or an exception.
\<close>

record pytorch3d =
  load_obj :: "string \<Rightarrow> string + obj_file"
  look_at_view_transform :: "real \<Rightarrow> real \<Rightarrow> real \<Rightarrow> tensor3 \<times> tensor2"
  phong_renderer ::
    "cameras \<Rightarrow> RasterizationSettings \<Rightarrow> lights \<Rightarrow> string \<Rightarrow> Meshes \<Rightarrow> string + rgba list list list"
  silhouette_renderer ::
    "cameras \<Rightarrow> RasterizationSettings \<Rightarrow> Meshes \<Rightarrow> string + rgba list list list"
  points_renderer ::
    "PointsRenderer \<Rightarrow> heap \<Rightarrow> ref \<Rightarrow> Pointclouds \<Rightarrow> string + vec3 list list list"

subsection \<open>Tensor operations\<close>

text \<open>\<^verbatim>\<open>t.expand(n, -1, ...)\<close>: a first dimension of size 1 is repeated \<open>n\<close> times, one of
  size \<open>n\<close> stays, any other size is an error.\<close>

definition expand :: "nat \<Rightarrow> 'a list \<Rightarrow> error + 'a list" where
  "expand n t =
     (if length t = n then Inr t
      else if length t = 1 then Inr (concat (replicate n t))
      else Inl RuntimeError)"

text \<open>\<^verbatim>\<open>t[:, idx]\<close> for a tensor of indices: the same selection in every batch element,
  an error when an index is out of range.\<close>

definition index_select :: "'a list list \<Rightarrow> nat list \<Rightarrow> error + 'a list list" where
  "index_select t idx =
     (if list_all (\<lambda>b. list_all (\<lambda>i. i < length b) idx) t
      then Inr (map (\<lambda>b. map (\<lambda>i. b ! i) idx) t)
      else Inl IndexError)"

text \<open>\<^verbatim>\<open>t[:, mask]\<close> for a boolean mask: the entries where the mask is true, an error when
  the mask has another length than the dimension.\<close>

definition mask_select :: "'a list list \<Rightarrow> bool list \<Rightarrow> error + 'a list list" where
  "mask_select t m =
     (if list_all (\<lambda>b. length b = length m) t
      then Inr (map (\<lambda>b. map fst (filter snd (zip b m))) t)
      else Inl IndexError)"

text \<open>\<^verbatim>\<open>t.shape[1]\<close> of a tensor with at least one batch element.\<close>

definition shape1 :: "'a list list \<Rightarrow> nat" where
  "shape1 t = (case t of [] \<Rightarrow> 0 | b # _ \<Rightarrow> length b)"

text \<open>\<^verbatim>\<open>torch.linspace(a, b, steps=n)\<close>.\<close>

definition linspace :: "real \<Rightarrow> real \<Rightarrow> nat \<Rightarrow> real list" where
  "linspace a b n =
     (if n = 1 then [a] else map (\<lambda>i. a + real i * (b - a) / real (n - 1)) [0..<n])"

text \<open>\<^verbatim>\<open>.permute(0, 3, 1, 2)\<close> of an image tensor (batch, height, width, channels): one plane
  per channel.\<close>

definition permute_rgba :: "rgba list list list \<Rightarrow> tensor4" where
  "permute_rgba t =
     map (\<lambda>im. [map (map (\<lambda>(r, g, b, a). r)) im, map (map (\<lambda>(r, g, b, a). g)) im,
                 map (map (\<lambda>(r, g, b, a). b)) im, map (map (\<lambda>(r, g, b, a). a)) im]) t"

definition permute_rgb :: "vec3 list list list \<Rightarrow> tensor4" where
  "permute_rgb t =
     map (\<lambda>im. [map (map (\<lambda>(r, g, b). r)) im, map (map (\<lambda>(r, g, b). g)) im,
                 map (map (\<lambda>(r, g, b). b)) im]) t"

definition permute_1 :: "'a list list list \<Rightarrow> 'a list list list list" where
  "permute_1 t = map (\<lambda>im. [im]) t"

text \<open>\<^verbatim>\<open>.permute(0, 2, 3, 1)\<close>, from channels first to channels last.\<close>

definition permute_0231 :: "'a list list list list \<Rightarrow> 'a list list list list" where
  "permute_0231 t = map (\<lambda>im. map transpose (transpose im)) t"

text \<open>\<^verbatim>\<open>t[..., :3]\<close> and \<^verbatim>\<open>t[..., 3:]\<close> on the channels of an RGBA image.\<close>

definition slice_rgb :: "rgba list list list \<Rightarrow> vec3 list list list" where
  "slice_rgb t = map (map (map (\<lambda>(r, g, b, a). (r, g, b)))) t"

definition slice_alpha :: "rgba list list list \<Rightarrow> real list list list" where
  "slice_alpha t = map (map (map (\<lambda>(r, g, b, a). a))) t"

definition map4 :: "('a \<Rightarrow> 'b) \<Rightarrow> 'a list list list list \<Rightarrow> 'b list list list list" where
  "map4 f t = map (map (map (map f))) t"

text \<open>All elements of a four-dimensional tensor.\<close>

definition elements :: "'a list list list list \<Rightarrow> 'a list" where
  "elements t = concat (concat (concat t))"

text \<open>\<^verbatim>\<open>torch.ones_like(v)\<close> and \<^verbatim>\<open>v.new_ones(v.shape)\<close>.\<close>

definition ones_like :: "vec3 list list \<Rightarrow> vec3 list list" where
  "ones_like v = map (map (\<lambda>_. (1, 1, 1))) v"

section \<open>Point\_Renderer\<close>

record Point_Renderer =
  P_device :: string
  P_cameras :: ref
  P_renderer :: PointsRenderer

text \<open>\<^verbatim>\<open>Point_Renderer.__init__(self, image_size=256, device='cpu')\<close>.\<close>

definition Point_Renderer_init ::
  "pytorch3d \<Rightarrow> int \<Rightarrow> string \<Rightarrow> heap \<Rightarrow> Point_Renderer \<times> heap" where
  "Point_Renderer_init lib image_size device h =
     (let (R, T) = look_at_view_transform lib 4 30 30;
          (c, h') = alloc h (FoVPerspectiveCameras device R T (1 / 100) 1);
          raster_settings =
            \<lparr>prs_image_size = image_size, radius = 5 / 1000, points_per_pixel = 10\<rparr>;
          rasterizer = \<lparr>rast_cameras = c, rast_settings = raster_settings\<rparr>
      in (\<lparr>P_device = device, P_cameras = c,
           P_renderer = \<lparr>rasterizer = rasterizer, compositor = AlphaCompositor\<rparr>\<rparr>, h'))"

text \<open>
  The first statement of \<^verbatim>\<open>forward\<close>: the camera is built anew, and the field
  \<^verbatim>\<open>self.cameras\<close> set to the new object, unless the view is (8, 30, 30).
\<close>

definition rebuild_cameras ::
  "pytorch3d \<Rightarrow> Point_Renderer \<Rightarrow> heap \<Rightarrow> real \<Rightarrow> real \<Rightarrow> real \<Rightarrow> Point_Renderer \<times> heap" where
  "rebuild_cameras lib self h D E A =
     (if D \<noteq> 8 \<or> E \<noteq> 30 \<or> A \<noteq> 30 then
        (let (R, T) = look_at_view_transform lib D E A;
             (c, h') = alloc h (FoVPerspectiveCameras (P_device self) R T (1 / 100) 1)
         in (self\<lparr>P_cameras := c\<rparr>, h'))
      else (self, h))"

text \<open>The reference axes: \<open>n\<close> points on each coordinate axis.\<close>

definition cod :: "nat \<Rightarrow> vec3 list" where
  "cod coords_size =
     (let li = linspace 0 1 coords_size
      in map (\<lambda>x. (x, 0, 0)) li @ map (\<lambda>x. (0, x, 0)) li @ map (\<lambda>x. (0, 0, x)) li)"

text \<open>
  The point cloud that \<^verbatim>\<open>forward\<close> assembles. The two random draws of a call are
  arguments: \<open>randperm\<close> is the value of \<^verbatim>\<open>torch.randperm(verts.shape[1])\<close>, and
  \<open>rand b i\<close> is the colour that \<^verbatim>\<open>torch.rand_like(verts)\<close> holds for point \<open>i\<close> of batch
  element \<open>b\<close>.
\<close>

definition point_cloud ::
  "vec3 list list \<Rightarrow> bool \<Rightarrow> vec3 list list option \<Rightarrow> nat list \<Rightarrow> (nat \<Rightarrow> nat \<Rightarrow> vec3)
     \<Rightarrow> error + Pointclouds" where
  "point_cloud pts coords ex_points randperm rand =
     and_then (index_select pts (take 10000 randperm)) (\<lambda>verts.
     and_then (case ex_points of
                 None \<Rightarrow> Inr verts
               | Some ex \<Rightarrow>
                   and_then (expand (length verts) ex) (\<lambda>exs. Inr (map2 (@) verts exs)))
       (\<lambda>verts.
          let verts = (if coords then map (\<lambda>b. b @ cod (shape1 verts div 10)) verts else verts);
              rgb = map (\<lambda>(b, ps). map (rand b) [0..<length ps]) (enumerate 0 verts)
          in Inr \<lparr>pc_points = verts, pc_features = rgb\<rparr>))"

text \<open>\<^verbatim>\<open>Point_Renderer.forward(self, points, D, E, A, coords, ex_points)\<close>. The result is
  the renderer after the call, the store after the call, and the returned images or the
  exception.\<close>

definition Point_forward ::
  "pytorch3d \<Rightarrow> Point_Renderer \<Rightarrow> heap \<Rightarrow> vec3 list list \<Rightarrow> real \<Rightarrow> real \<Rightarrow> real \<Rightarrow> bool
     \<Rightarrow> vec3 list list option \<Rightarrow> nat list \<Rightarrow> (nat \<Rightarrow> nat \<Rightarrow> vec3)
     \<Rightarrow> Point_Renderer \<times> heap \<times> (error + tensor4)" where
  "Point_forward lib self h pts D E A coords ex_points randperm rand =
     (let (self', h') = rebuild_cameras lib self h D E A
      in (self', h',
          and_then (point_cloud pts coords ex_points randperm rand) (\<lambda>cloud.
          and_then (external (points_renderer lib (P_renderer self') h' (P_cameras self') cloud))
            (\<lambda>images. Inr (map4 (\<lambda>x. x * 255) (permute_rgb images))))))"

text \<open>The defaults of the signature \<^verbatim>\<open>forward(self, points, D=3, E=15, A=30, coords=True,
  ex_points=None)\<close>: an argument that the caller leaves out is \<open>None\<close> here.\<close>

definition Point_forward_kw ::
  "pytorch3d \<Rightarrow> Point_Renderer \<Rightarrow> heap \<Rightarrow> vec3 list list \<Rightarrow> real option \<Rightarrow> real option
     \<Rightarrow> real option \<Rightarrow> bool option \<Rightarrow> vec3 list list option \<Rightarrow> nat list
     \<Rightarrow> (nat \<Rightarrow> nat \<Rightarrow> vec3) \<Rightarrow> Point_Renderer \<times> heap \<times> (error + tensor4)" where
  "Point_forward_kw lib self h pts D E A coords ex_points randperm rand =
     Point_forward lib self h pts
       (case D of None \<Rightarrow> 3 | Some d \<Rightarrow> d)
       (case E of None \<Rightarrow> 15 | Some e \<Rightarrow> e)
       (case A of None \<Rightarrow> 30 | Some a \<Rightarrow> a)
       (case coords of None \<Rightarrow> True | Some c \<Rightarrow> c)
       ex_points randperm rand"

section \<open>Mesh\_Renderer\<close>

record Mesh_Renderer =
  M_device :: string
  M_image_size :: int
  M_faces :: "int list list"
  M_raster_settings :: RasterizationSettings
  M_lights :: lights

text \<open>\<^verbatim>\<open>faces.astype(np.int32)\<close> on an integer array: the low 32 bits, read as two's
  complement.\<close>

definition astype_int32 :: "int \<Rightarrow> int" where
  "astype_int32 x = sint (word_of_int x :: 32 word)"


text \<open>\<^verbatim>\<open>Mesh_Renderer._build_cameras\<close>. \<^verbatim>\<open>transform_matrix.shape\<close> and
  \<^verbatim>\<open>principal_point.repeat\<close> raise on \<open>None\<close>; \<^verbatim>\<open>transform_matrix[:, :3, 3]\<close> raises when
  the rows have no fourth entry.\<close>

definition build_cameras ::
  "Mesh_Renderer \<Rightarrow> tensor3 option \<Rightarrow> tensor2 option \<Rightarrow> tensor2 option \<Rightarrow> error + cameras" where
  "build_cameras self transform_matrix focal_length principal_point =
     (case transform_matrix of
        None \<Rightarrow> Inl AttributeError
      | Some tm \<Rightarrow>
          (let batch_size = length tm;
               screen_size =
                 replicate batch_size
                   [real_of_int (M_image_size self), real_of_int (M_image_size self)]
           in case principal_point of
                None \<Rightarrow> Inl AttributeError
              | Some pp \<Rightarrow>
                  if list_all (\<lambda>m. list_all (\<lambda>row. 3 < length row) (take 3 m)) tm
                  then Inr (PerspectiveCameras (concat (replicate batch_size pp)) focal_length
                              screen_size (M_device self)
                              (map (\<lambda>m. map (take 3) (take 3 m)) tm)
                              (map (\<lambda>m. map (\<lambda>row. row ! 3) (take 3 m)) tm))
                  else Inl IndexError))"

text \<open>\<^verbatim>\<open>Mesh_Renderer.forward\<close>: the renderer after the call, and the pair
  \<^verbatim>\<open>(images*255, alpha_images)\<close> or the exception.\<close>

definition Mesh_forward ::
  "pytorch3d \<Rightarrow> Mesh_Renderer \<Rightarrow> vec3 list list \<Rightarrow> cameras option \<Rightarrow> tensor3 option
     \<Rightarrow> tensor2 option \<Rightarrow> tensor2 option \<Rightarrow> Mesh_Renderer \<times> (error + tensor4 \<times> tensor4)" where
  "Mesh_forward lib self vertices cameras transform_matrix focal_length principal_point =
     (self,
      and_then
        (case cameras of
           None \<Rightarrow> build_cameras self transform_matrix focal_length principal_point
         | Some c \<Rightarrow> Inr c)
        (\<lambda>cameras.
           let faces = replicate (length vertices) (M_faces self);
               verts_rgb = ones_like vertices;
               textures = TexturesVertex verts_rgb;
               mesh = \<lparr>mesh_verts = vertices, mesh_faces = faces, mesh_textures = textures\<rparr>
           in and_then
                (external (phong_renderer lib cameras (M_raster_settings self) (M_lights self)
                             (M_device self) mesh))
                (\<lambda>out.
                   let render_results = permute_rgba out;
                       images = map (take 3) render_results;
                       alpha_images = map (drop 3) render_results
                   in Inr (map4 (\<lambda>x. x * 255) images, alpha_images))))"

section \<open>Texture\_Renderer\<close>

text \<open>The field \<open>T_flame_mask\<close> is \<open>None\<close> when the object has no attribute
  \<^verbatim>\<open>flame_mask\<close>.\<close>

record Texture_Renderer =
  T_device :: string
  T_uvverts :: "(real \<times> real) list list"
  T_uvfaces :: "int list list list"
  T_faces :: "int list list list"
  T_lights :: lights
  T_raster_settings :: RasterizationSettings
  T_flame_mask :: "bool list option"

text \<open>\<^verbatim>\<open>os.path.join(a, *ps)\<close> on POSIX paths.\<close>

definition os_path_join :: "string \<Rightarrow> string list \<Rightarrow> string" where
  "os_path_join a ps =
     fold (\<lambda>b path.
             if b \<noteq> [] \<and> hd b = CHR ''/'' then b
             else if path = [] \<or> last path = CHR ''/'' then path @ b
             else path @ ''/'' @ b) ps a"

text \<open>The two loops of the constructor: the inner one counts the vertices of a face that
  are in \<^verbatim>\<open>flame_mask\<close>, the outer one appends one boolean per face.\<close>

fun count_valid :: "int list \<Rightarrow> int list \<Rightarrow> nat \<Rightarrow> nat" where
  "count_valid flame_mask [] valid = valid"
| "count_valid flame_mask (v # f) valid =
     count_valid flame_mask f (if v \<in> set flame_mask then valid + 1 else valid)"

fun reduce_faces :: "int list \<Rightarrow> int list list \<Rightarrow> bool list \<Rightarrow> bool list" where
  "reduce_faces flame_mask [] reduced_faces = reduced_faces"
| "reduce_faces flame_mask (f # fs) reduced_faces =
     reduce_faces flame_mask fs
       (reduced_faces @ [if count_valid flame_mask f 0 = 3 then True else False])"

text \<open>\<^verbatim>\<open>Texture_Renderer.__init__(self, image_size, flame_path, flame_mask=None,
  device='cpu')\<close>.\<close>

definition Texture_Renderer_init ::
  "pytorch3d \<Rightarrow> int \<Rightarrow> string \<Rightarrow> int list option \<Rightarrow> string \<Rightarrow> error + Texture_Renderer" where
  "Texture_Renderer_init lib image_size flame_path flame_mask device =
     (let obj_filename =
            os_path_join flame_path [''FLAME_embedding'', ''head_template_mesh.obj'']
      in and_then (external (load_obj lib obj_filename)) (\<lambda>obj.
           let fs = [verts_idx obj]
           in Inr \<lparr>T_device = device, T_uvverts = [obj_verts_uvs obj],
                   T_uvfaces = [textures_idx obj], T_faces = fs,
                   T_lights = AmbientLights device,
                   T_raster_settings =
                     \<lparr>rs_image_size = image_size, blur_radius = 0, faces_per_pixel = 1,
                      perspective_correct = Some True, cull_backfaces = True\<rparr>,
                   T_flame_mask =
                     (case flame_mask of
                        None \<Rightarrow> None
                      | Some fm \<Rightarrow> Some (reduce_faces fm (fs ! 0) []))\<rparr>))"

text \<open>\<^verbatim>\<open>image_ref[..., 3:].permute(0, 3, 1, 2) > 0.0\<close>.\<close>

definition alpha_mask :: "rgba list list list \<Rightarrow> bool list list list list" where
  "alpha_mask image_ref = map4 (\<lambda>x. x > 0) (permute_1 (slice_alpha image_ref))"

text \<open>The silhouette branch of \<^verbatim>\<open>forward\<close>: \<open>None\<close> without the attribute
  \<^verbatim>\<open>flame_mask\<close>.\<close>

definition masks_face ::
  "pytorch3d \<Rightarrow> Texture_Renderer \<Rightarrow> vec3 list list \<Rightarrow> int list list list \<Rightarrow> cameras
     \<Rightarrow> error + bool list list list list option" where
  "masks_face lib self vertices_world faces cameras =
     (case T_flame_mask self of
        Some fm \<Rightarrow>
          and_then (mask_select faces fm) (\<lambda>fs_masked.
            let textures_verts = TexturesVertex (ones_like vertices_world);
                meshes_masked =
                  \<lparr>mesh_verts = vertices_world, mesh_faces = fs_masked,
                   mesh_textures = textures_verts\<rparr>
            in and_then
                 (external (silhouette_renderer lib cameras (T_raster_settings self)
                              meshes_masked))
                 (\<lambda>m. Inr (Some (alpha_mask m))))
      | None \<Rightarrow> Inr None)"

text \<open>\<^verbatim>\<open>Texture_Renderer.forward(self, vertices_world, texture_images, cameras)\<close>: the
  renderer after the call, and \<^verbatim>\<open>(images, masks_all, masks_face)\<close> or the exception.\<close>

definition Texture_forward ::
  "pytorch3d \<Rightarrow> Texture_Renderer \<Rightarrow> vec3 list list \<Rightarrow> tensor4 \<Rightarrow> cameras
     \<Rightarrow> Texture_Renderer \<times>
        (error + tensor4 \<times> bool list list list list \<times> bool list list list list option)" where
  "Texture_forward lib self vertices_world texture_images cameras =
     (self,
      let batch_size = length vertices_world
      in and_then (expand batch_size (T_faces self)) (\<lambda>faces.
         and_then (expand batch_size texture_images) (\<lambda>tex.
         and_then (expand batch_size (T_uvfaces self)) (\<lambda>fuv.
         and_then (expand batch_size (T_uvverts self)) (\<lambda>vuv.
           let textures_uv = TexturesUV (permute_0231 tex) fuv vuv;
               meshes_world =
                 \<lparr>mesh_verts = vertices_world, mesh_faces = faces, mesh_textures = textures_uv\<rparr>
           in and_then
                (external (phong_renderer lib cameras (T_raster_settings self) (T_lights self)
                             (T_device self) meshes_world))
                (\<lambda>image_ref.
                   let images = permute_rgb (slice_rgb image_ref);
                       masks_all = alpha_mask image_ref
                   in and_then (masks_face lib self vertices_world faces cameras)
                        (\<lambda>mf. Inr (images, masks_all, mf))))))))"

section \<open>A predicate on tensors, and a small instance of the library\<close>

text \<open>A tensor of numbers is boolean-valued when every element is 0 or 1.\<close>

definition boolean_valued :: "tensor4 \<Rightarrow> bool" where
  "boolean_valued t = list_all (\<lambda>x. x = 0 \<or> x = 1) (elements t)"

text \<open>
  To evaluate the model on concrete inputs, a small library: one mesh file of two
  triangles, known under two paths; a view transform that records its arguments; and
  renderers that return an image of one pixel per batch element. The mesh renderer's
  pixel has the alpha value 1/2, as a soft shader gives at the edge of a face.
\<close>

definition obj0 :: obj_file where
  "obj0 = \<lparr>verts_idx = [[0, 1, 2], [1, 2, 3]], textures_idx = [[0, 1, 2], [1, 2, 3]],
            obj_verts_uvs = [(0, 0), (1, 0), (0, 1), (1, 1)]\<rparr>"

definition lib0 :: pytorch3d where
  "lib0 =
     \<lparr>load_obj =
        (\<lambda>name. if name = ''mesh.obj'' \<or> name = ''flame/FLAME_embedding/head_template_mesh.obj''
                 then Inr obj0 else Inl ''No such file or directory''),
      look_at_view_transform = (\<lambda>d e a. ([[[d, e, a]]], [[d, e, a]])),
      phong_renderer = (\<lambda>c s l d m. Inr (map (\<lambda>_. [[(1, 1 / 2, 0, 1 / 2)]]) (mesh_verts m))),
      silhouette_renderer = (\<lambda>c s m. Inr (map (\<lambda>_. [[(1, 1, 1, 1)]]) (mesh_verts m))),
      points_renderer =
        (\<lambda>r h c cloud. Inr (map (\<lambda>_. [[(1 / 2, 1 / 4, 0)]]) (pc_points cloud)))\<rparr>"

definition camera0 :: cameras where
  "camera0 =
     PerspectiveCameras [[0, 0]] (Some [[1]]) [[256, 256]] ''cpu''
       [[[1, 0, 0], [0, 1, 0], [0, 0, 1]]] [[0, 0, 1]]"

definition mesh_renderer0 :: Mesh_Renderer where
  "mesh_renderer0 =
     \<lparr>M_device = ''cpu'', M_image_size = 256, M_faces = [[0, 1, 2]],
      M_raster_settings =
        \<lparr>rs_image_size = 256, blur_radius = 0, faces_per_pixel = 1,
         perspective_correct = None, cull_backfaces = False\<rparr>,
      M_lights = PointLights ''cpu'' [[0, 0, 3]]\<rparr>"

definition point_renderer0 :: Point_Renderer where
  "point_renderer0 =
     \<lparr>P_device = ''cpu'', P_cameras = 0,
      P_renderer =
        \<lparr>rasterizer =
           \<lparr>rast_cameras = 0,
            rast_settings = \<lparr>prs_image_size = 256, radius = 5 / 1000, points_per_pixel = 10\<rparr>\<rparr>,
         compositor = AlphaCompositor\<rparr>\<rparr>"

definition heap0 :: heap where
  "heap0 = [FoVPerspectiveCameras ''cpu'' [[[4, 30, 30]]] [[4, 30, 30]] (1 / 100) 1]"

definition triangle0 :: "vec3 list list" where
  "triangle0 = [[(0, 0, 0), (1, 0, 0), (0, 1, 0)]]"

definition rand0 :: "nat \<Rightarrow> nat \<Rightarrow> vec3" where
  "rand0 b i = (1 / 2, 1 / 4, 1 / 8)"

definition texture_renderer0 :: Texture_Renderer where
  "texture_renderer0 =
     \<lparr>T_device = ''cpu'', T_uvverts = [[(0, 0), (1, 0), (0, 1), (1, 1)]],
      T_uvfaces = [[[0, 1, 2], [1, 2, 3]]], T_faces = [[[0, 1, 2], [1, 2, 3]]],
      T_lights = AmbientLights ''cpu'',
      T_raster_settings =
        \<lparr>rs_image_size = 256, blur_radius = 0, faces_per_pixel = 1,
         perspective_correct = Some True, cull_backfaces = True\<rparr>,
      T_flame_mask = Some [True, False]\<rparr>"

definition texture0 :: tensor4 where
  "texture0 = [[[[1]], [[1 / 2]], [[0]]]]"

text \<open>A batch of two point sets of twenty points each.\<close>

definition points20 :: "vec3 list list" where
  "points20 = map (\<lambda>b. map (\<lambda>i. (real i, real b, 0)) [0..<20]) [0..<2]"

section \<open>The camera of Point\_Renderer\<close>

text \<open>
  C1. \<^verbatim>\<open>Point_Renderer.forward\<close> builds a new camera if and only if the view
  \<open>(D, E, A)\<close> differs from \<open>(8, 30, 30)\<close>. For \<open>(8, 30, 30)\<close> the renderer and the
  store of camera objects are what they were before the call. For every other view the
  store has one more object, a \<^verbatim>\<open>FoVPerspectiveCameras\<close> built from
  \<^verbatim>\<open>look_at_view_transform(D, E, A)\<close> with \<open>znear = 0.01\<close> and \<open>zfar = 1.0\<close> on the
  renderer's device, and the field \<^verbatim>\<open>cameras\<close> refers to it; the other fields keep their
  values. In both cases the camera argument of the call of the points renderer is the
  object that the field refers to after this step.
\<close>

theorem Point_forward_rebuilds_camera:
  assumes "Point_forward lib self h pts D E A coords ex_points randperm rand = (self', h', out)"
  shows "(h' \<noteq> h \<longleftrightarrow> (D, E, A) \<noteq> (8, 30, 30)) \<and>
         ((D, E, A) = (8, 30, 30) \<longrightarrow> self' = self \<and> h' = h) \<and>
         ((D, E, A) \<noteq> (8, 30, 30) \<longrightarrow>
            P_cameras self' = length h \<and>
            h' = h @ [FoVPerspectiveCameras (P_device self)
                        (fst (look_at_view_transform lib D E A))
                        (snd (look_at_view_transform lib D E A)) (1 / 100) 1] \<and>
            P_device self' = P_device self \<and> P_renderer self' = P_renderer self) \<and>
         out = and_then (point_cloud pts coords ex_points randperm rand)
                 (\<lambda>cloud.
                    and_then
                      (external (points_renderer lib (P_renderer self) h' (P_cameras self') cloud))
                      (\<lambda>images. Inr (map4 (\<lambda>x. x * 255) (permute_rgb images))))"
  using assms
  by (auto simp: Point_forward_def rebuild_cameras_def alloc_def Let_def
           split: prod.splits if_splits)

theorem Point_forward_rebuilds_camera_witness:
  "fst (Point_forward lib0 point_renderer0 heap0 triangle0 8 30 30 True None [2, 0, 1] rand0)
     = point_renderer0 \<and>
   fst (snd (Point_forward lib0 point_renderer0 heap0 triangle0 8 30 30 True None [2, 0, 1] rand0))
     = heap0 \<and>
   P_cameras (fst (Point_forward lib0 point_renderer0 heap0 triangle0 8 15 30 True None
                     [2, 0, 1] rand0)) = 1 \<and>
   fst (snd (Point_forward lib0 point_renderer0 heap0 triangle0 8 15 30 True None [2, 0, 1] rand0))
     = heap0 @ [FoVPerspectiveCameras ''cpu'' [[[8, 15, 30]]] [[8, 15, 30]] (1 / 100) 1]"
proof -
  have a: "Point_forward lib0 point_renderer0 heap0 triangle0 8 30 30 True None [2, 0, 1] rand0
             = (fst (Point_forward lib0 point_renderer0 heap0 triangle0 8 30 30 True None
                       [2, 0, 1] rand0),
                fst (snd (Point_forward lib0 point_renderer0 heap0 triangle0 8 30 30 True None
                            [2, 0, 1] rand0)),
                snd (snd (Point_forward lib0 point_renderer0 heap0 triangle0 8 30 30 True None
                            [2, 0, 1] rand0)))"
    by simp
  have b: "Point_forward lib0 point_renderer0 heap0 triangle0 8 15 30 True None [2, 0, 1] rand0
             = (fst (Point_forward lib0 point_renderer0 heap0 triangle0 8 15 30 True None
                       [2, 0, 1] rand0),
                fst (snd (Point_forward lib0 point_renderer0 heap0 triangle0 8 15 30 True None
                            [2, 0, 1] rand0)),
                snd (snd (Point_forward lib0 point_renderer0 heap0 triangle0 8 15 30 True None
                            [2, 0, 1] rand0)))"
    by simp
  show ?thesis
    using Point_forward_rebuilds_camera [OF a] Point_forward_rebuilds_camera [OF b]
    by (simp add: lib0_def point_renderer0_def heap0_def)
qed



section \<open>What a call changes\<close>

text \<open>
  C2, as stated, fails: a call of \<^verbatim>\<open>Point_Renderer.forward\<close> with the default view
  assigns the field \<^verbatim>\<open>cameras\<close>, which the constructor had set. On the renderer that
  the constructor makes in the empty store, the field refers to object 0 before the call
  and to object 1 after it.
\<close>

theorem forward_modifies_cameras_counterexample:
  "Point_Renderer_init lib0 256 ''cpu'' [] = (point_renderer0, heap0) \<and>
   P_cameras point_renderer0 = 0 \<and>
   P_cameras (fst (Point_forward_kw lib0 point_renderer0 heap0 triangle0 None None None None None
                     [2, 0, 1] rand0)) = 1"
  by (simp add: Point_forward_kw_def Point_forward_def Point_Renderer_init_def
                rebuild_cameras_def alloc_def lib0_def point_renderer0_def heap0_def)

text \<open>
  C2, amended. \<^verbatim>\<open>Mesh_Renderer.forward\<close> and \<^verbatim>\<open>Texture_Renderer.forward\<close> leave every
  field of the renderer as it was. \<^verbatim>\<open>Point_Renderer.forward\<close> leaves the fields
  \<^verbatim>\<open>device\<close> and \<^verbatim>\<open>renderer\<close> and every camera object of the store as they were; the
  field \<^verbatim>\<open>cameras\<close>, when it refers to an object of the store, keeps its value exactly
  when the view is \<open>(8, 30, 30)\<close>.
\<close>

theorem forward_frame:
  assumes "Point_forward lib p h pts D E A coords ex_points randperm rand = (p', h', out)"
      and "P_cameras p < length h"
  shows "fst (Mesh_forward lib m vertices cameras transform_matrix focal_length principal_point)
           = m \<and>
         fst (Texture_forward lib t vertices_world texture_images cams) = t \<and>
         P_device p' = P_device p \<and> P_renderer p' = P_renderer p \<and>
         take (length h) h' = h \<and>
         (P_cameras p' = P_cameras p \<longleftrightarrow> (D, E, A) = (8, 30, 30))"
  using assms
  by (auto simp: Mesh_forward_def Texture_forward_def Point_forward_def
                 rebuild_cameras_def alloc_def Let_def split: prod.splits if_splits)

theorem forward_frame_witness:
  "P_cameras point_renderer0 < length heap0 \<and>
   fst (Mesh_forward lib0 mesh_renderer0 triangle0 (Some camera0) None None None)
     = mesh_renderer0 \<and>
   fst (Texture_forward lib0 texture_renderer0 triangle0 texture0 camera0) = texture_renderer0 \<and>
   P_renderer (fst (Point_forward lib0 point_renderer0 heap0 triangle0 3 15 30 False None
                      [0, 1, 2] rand0)) = P_renderer point_renderer0 \<and>
   P_cameras (fst (Point_forward lib0 point_renderer0 heap0 triangle0 3 15 30 False None
                      [0, 1, 2] rand0)) \<noteq> P_cameras point_renderer0 \<and>
   P_cameras (fst (Point_forward lib0 point_renderer0 heap0 triangle0 8 30 30 False None
                      [0, 1, 2] rand0)) = P_cameras point_renderer0"
proof -
  have valid: "P_cameras point_renderer0 < length heap0"
    by (simp add: point_renderer0_def heap0_def)
  have a: "Point_forward lib0 point_renderer0 heap0 triangle0 3 15 30 False None [0, 1, 2] rand0
             = (fst (Point_forward lib0 point_renderer0 heap0 triangle0 3 15 30 False None
                       [0, 1, 2] rand0),
                fst (snd (Point_forward lib0 point_renderer0 heap0 triangle0 3 15 30 False None
                            [0, 1, 2] rand0)),
                snd (snd (Point_forward lib0 point_renderer0 heap0 triangle0 3 15 30 False None
                            [0, 1, 2] rand0)))"
    by simp
  have b: "Point_forward lib0 point_renderer0 heap0 triangle0 8 30 30 False None [0, 1, 2] rand0
             = (fst (Point_forward lib0 point_renderer0 heap0 triangle0 8 30 30 False None
                       [0, 1, 2] rand0),
                fst (snd (Point_forward lib0 point_renderer0 heap0 triangle0 8 30 30 False None
                            [0, 1, 2] rand0)),
                snd (snd (Point_forward lib0 point_renderer0 heap0 triangle0 8 30 30 False None
                            [0, 1, 2] rand0)))"
    by simp
  show ?thesis
    using valid
      forward_frame [OF a valid, where m = mesh_renderer0
                       and vertices = triangle0 and cameras = "Some camera0"
                       and transform_matrix = None and focal_length = None
                       and principal_point = None and t = texture_renderer0
                       and vertices_world = triangle0 and texture_images = texture0
                       and cams = camera0]
      forward_frame [OF b valid, where m = mesh_renderer0
                       and vertices = triangle0 and cameras = "Some camera0"
                       and transform_matrix = None and focal_length = None
                       and principal_point = None and t = texture_renderer0
                       and vertices_world = triangle0 and texture_images = texture0
                       and cams = camera0]
    by simp
qed

section \<open>Images and masks\<close>

text \<open>What the three \<^verbatim>\<open>forward\<close> methods return, when they return, in terms of the
  image that the library rendered.\<close>

lemma elements_map4: "elements (map4 f t) = map f (elements t)"
  by (simp add: elements_def map4_def map_concat comp_def)

lemma drop3_permute_rgba: "map (drop 3) (permute_rgba out) = permute_1 (slice_alpha out)"
  by (simp add: permute_rgba_def permute_1_def slice_alpha_def)

lemma Mesh_forward_Inr:
  assumes "Mesh_forward lib m vertices cameras tm fl pp = (m', Inr (images, alpha_images))"
  shows "\<exists>cam mesh out.
           phong_renderer lib cam (M_raster_settings m) (M_lights m) (M_device m) mesh = Inr out \<and>
           images = map4 (\<lambda>x. x * 255) (map (take 3) (permute_rgba out)) \<and>
           alpha_images = permute_1 (slice_alpha out)"
  using assms
  by (auto simp: Mesh_forward_def and_then_def external_def Let_def drop3_permute_rgba
           split: sum.splits)

lemma Texture_forward_Inr:
  assumes "Texture_forward lib t vertices_world texture_images cams
             = (t', Inr (images, masks_all, mf))"
  shows "\<exists>mesh image_ref.
           phong_renderer lib cams (T_raster_settings t) (T_lights t) (T_device t) mesh
             = Inr image_ref \<and>
           images = permute_rgb (slice_rgb image_ref) \<and>
           masks_all = alpha_mask image_ref \<and>
           (\<exists>fs. masks_face lib t vertices_world fs cams = Inr mf)"
  using assms
  by (auto simp: Texture_forward_def and_then_def external_def Let_def split: sum.splits)

lemma masks_face_Some:
  assumes "masks_face lib t vertices_world fs cams = Inr (Some mk)"
  shows "\<exists>fm mesh sil.
           T_flame_mask t = Some fm \<and>
           silhouette_renderer lib cams (T_raster_settings t) mesh = Inr sil \<and>
           mk = alpha_mask sil"
  using assms
  by (auto simp: masks_face_def and_then_def external_def Let_def split: sum.splits option.splits)

lemma boolean_valued_of_bool: "boolean_valued (map4 of_bool t)"
  by (auto simp: boolean_valued_def elements_map4 list_all_iff)

text \<open>
  C3, as stated, fails for \<^verbatim>\<open>Mesh_Renderer\<close>: its second output is the alpha channel of
  the rendered image as it comes, with no threshold. Where the shader returns the alpha
  value 1/2 for a pixel, so does \<^verbatim>\<open>forward\<close>.
\<close>

theorem Mesh_alpha_not_boolean_counterexample:
  "Mesh_forward lib0 mesh_renderer0 triangle0 (Some camera0) None None None
     = (mesh_renderer0, Inr ([[[[255]], [[255 / 2]], [[0]]]], [[[[1 / 2]]]])) \<and>
   \<not> boolean_valued [[[[1 / 2]]]]"
  by (simp add: Mesh_forward_def and_then_def external_def lib0_def triangle0_def
                permute_rgba_def map4_def boolean_valued_def elements_def)

text \<open>
  C3, amended. The second output of \<^verbatim>\<open>Texture_Renderer.forward\<close>, and its third output
  when there is one, are boolean tensors: each element is the test \<open>alpha > 0\<close> on the
  alpha channel of a rendered image (the Phong image for the second output, the
  silhouette image for the third), so as a number it is 0 or 1. The second output of
  \<^verbatim>\<open>Mesh_Renderer.forward\<close> is the alpha channel of the rendered image itself.
\<close>

theorem masks_are_thresholded_alpha:
  "(Mesh_forward lib m vertices cameras transform_matrix focal_length principal_point
      = (m', Inr (images, alpha_images)) \<longrightarrow>
      (\<exists>cam mesh out.
         phong_renderer lib cam (M_raster_settings m) (M_lights m) (M_device m) mesh = Inr out \<and>
         alpha_images = permute_1 (slice_alpha out))) \<and>
   (Texture_forward lib t vertices_world texture_images cams
      = (t', Inr (images', masks_all, mf)) \<longrightarrow>
      (\<exists>mesh image_ref.
         phong_renderer lib cams (T_raster_settings t) (T_lights t) (T_device t) mesh
           = Inr image_ref \<and>
         masks_all = map4 (\<lambda>a. 0 < a) (permute_1 (slice_alpha image_ref))) \<and>
      boolean_valued (map4 of_bool masks_all) \<and>
      (\<forall>mk. mf = Some mk \<longrightarrow>
         (\<exists>mesh sil.
            silhouette_renderer lib cams (T_raster_settings t) mesh = Inr sil \<and>
            mk = map4 (\<lambda>a. 0 < a) (permute_1 (slice_alpha sil))) \<and>
         boolean_valued (map4 of_bool mk)))"
proof (intro conjI impI allI)
  assume "Mesh_forward lib m vertices cameras transform_matrix focal_length principal_point
            = (m', Inr (images, alpha_images))"
  from Mesh_forward_Inr [OF this]
  show "\<exists>cam mesh out.
         phong_renderer lib cam (M_raster_settings m) (M_lights m) (M_device m) mesh = Inr out \<and>
         alpha_images = permute_1 (slice_alpha out)"
    by blast
next
  assume "Texture_forward lib t vertices_world texture_images cams
            = (t', Inr (images', masks_all, mf))"
  from Texture_forward_Inr [OF this]
  show "\<exists>mesh image_ref.
         phong_renderer lib cams (T_raster_settings t) (T_lights t) (T_device t) mesh
           = Inr image_ref \<and>
         masks_all = map4 (\<lambda>a. 0 < a) (permute_1 (slice_alpha image_ref))"
    unfolding alpha_mask_def by blast
next
  show "boolean_valued (map4 of_bool masks_all)" by (rule boolean_valued_of_bool)
next
  fix mk
  assume "Texture_forward lib t vertices_world texture_images cams
            = (t', Inr (images', masks_all, mf))" and "mf = Some mk"
  with Texture_forward_Inr [of lib t vertices_world texture_images cams t' images' masks_all mf]
  obtain fs where "masks_face lib t vertices_world fs cams = Inr (Some mk)" by blast
  from masks_face_Some [OF this]
  show "\<exists>mesh sil.
            silhouette_renderer lib cams (T_raster_settings t) mesh = Inr sil \<and>
            mk = map4 (\<lambda>a. 0 < a) (permute_1 (slice_alpha sil))"
    unfolding alpha_mask_def by blast
next
  fix mk show "boolean_valued (map4 of_bool mk)" by (rule boolean_valued_of_bool)
qed

theorem masks_are_thresholded_alpha_witness:
  "Mesh_forward lib0 mesh_renderer0 triangle0 (Some camera0) None None None
     = (mesh_renderer0, Inr ([[[[255]], [[255 / 2]], [[0]]]], [[[[1 / 2]]]])) \<and>
   Texture_forward lib0 texture_renderer0 triangle0 texture0 camera0
     = (texture_renderer0, Inr ([[[[1]], [[1 / 2]], [[0]]]], [[[[True]]]], Some [[[[True]]]])) \<and>
   boolean_valued (map4 of_bool [[[[True]]]]) \<and>
   (\<exists>mesh sil.
      silhouette_renderer lib0 camera0 (T_raster_settings texture_renderer0) mesh = Inr sil \<and>
      [[[[True]]]] = map4 (\<lambda>a. 0 < a) (permute_1 (slice_alpha sil)))"
proof -
  have m: "Mesh_forward lib0 mesh_renderer0 triangle0 (Some camera0) None None None
     = (mesh_renderer0, Inr ([[[[255]], [[255 / 2]], [[0]]]], [[[[1 / 2]]]]))"
    by (simp add: Mesh_forward_def and_then_def external_def lib0_def triangle0_def
                  permute_rgba_def map4_def)
  have t: "Texture_forward lib0 texture_renderer0 triangle0 texture0 camera0
     = (texture_renderer0, Inr ([[[[1]], [[1 / 2]], [[0]]]], [[[[True]]]], Some [[[[True]]]]))"
    by (simp add: Texture_forward_def masks_face_def and_then_def external_def lib0_def
                  triangle0_def permute_rgb_def permute_1_def slice_rgb_def slice_alpha_def
                  alpha_mask_def map4_def expand_def texture0_def texture_renderer0_def
                  mask_select_def)
  show ?thesis
    using m t
      masks_are_thresholded_alpha [of lib0 mesh_renderer0 triangle0 "Some camera0" None None
        None mesh_renderer0 "[[[[255]], [[255 / 2]], [[0]]]]" "[[[[1 / 2]]]]"
        texture_renderer0 triangle0 texture0 camera0 texture_renderer0
        "[[[[1]], [[1 / 2]], [[0]]]]" "[[[[True]]]]" "Some [[[[True]]]]"]
    by simp
qed

section \<open>Construction of Mesh\_Renderer\<close>

lemma astype_int32_id:
  assumes "- (2 ^ 31) \<le> x" and "x < 2 ^ 31"
  shows "astype_int32 x = x"
  using assms by (simp add: astype_int32_def sint_sbintrunc' signed_take_bit_int_eq_self)




section \<open>The region mask of Texture\_Renderer\<close>

lemma count_valid_filter:
  "count_valid flame_mask f valid = valid + length (filter (\<lambda>v. v \<in> set flame_mask) f)"
  by (induction f arbitrary: valid) auto

lemma reduce_faces_map:
  "reduce_faces flame_mask fs reduced_faces
     = reduced_faces @ map (\<lambda>f. count_valid flame_mask f 0 = 3) fs"
  by (induction fs arbitrary: reduced_faces) auto

lemma length_filter_eq_length:
  "length (filter P xs) = length xs \<longleftrightarrow> (\<forall>x \<in> set xs. P x)"
proof (induction xs)
  case Nil
  show ?case by simp
next
  case (Cons x xs)
  have "length (filter P xs) \<le> length xs" by (rule length_filter_le)
  then have "length (filter P xs) \<noteq> Suc (length xs)" by linarith
  with Cons show ?case by auto
qed

lemma count_valid_triangle:
  assumes "length f = 3"
  shows "count_valid flame_mask f 0 = 3 \<longleftrightarrow> (\<forall>v \<in> set f. v \<in> set flame_mask)"
  using assms length_filter_eq_length [of "\<lambda>v. v \<in> set flame_mask" f]
  by (simp add: count_valid_filter)


lemma masks_face_None:
  "T_flame_mask t = None \<Longrightarrow> masks_face lib t vertices_world faces cams = Inr None"
  by (simp add: masks_face_def)

lemma masks_face_Inr_None:
  "masks_face lib t vertices_world faces cams = Inr mf \<Longrightarrow> (mf = None \<longleftrightarrow> T_flame_mask t = None)"
  by (auto simp: masks_face_def and_then_def external_def Let_def split: option.splits sum.splits)

lemma Texture_Renderer_init_flame_mask:
  "Texture_Renderer_init lib image_size flame_path flame_mask device = Inr t \<Longrightarrow>
     (T_flame_mask t = None \<longleftrightarrow> flame_mask = None)"
  by (auto simp: Texture_Renderer_init_def and_then_def external_def Let_def
           split: option.splits sum.splits)

text \<open>
  C6. A \<^verbatim>\<open>Texture_Renderer\<close> constructed with a vertex-index set \<^verbatim>\<open>flame_mask\<close>, over a
  mesh of triangles, has a mask with one boolean per face; the boolean of face \<open>i\<close> is true
  if and only if every vertex index of face \<open>i\<close> is in the set. No call of \<^verbatim>\<open>forward\<close>
  changes the mask.
\<close>

theorem flame_mask_marks_faces:
  assumes init: "Texture_Renderer_init lib image_size flame_path (Some flame_mask) device
                   = Inr self"
      and tri: "\<forall>f \<in> set (T_faces self ! 0). length f = 3"
  shows "\<exists>mask.
           T_flame_mask self = Some mask \<and>
           length mask = length (T_faces self ! 0) \<and>
           (\<forall>i < length mask.
              mask ! i \<longleftrightarrow> (\<forall>v \<in> set (T_faces self ! 0 ! i). v \<in> set flame_mask)) \<and>
           (\<forall>vertices_world texture_images cams.
              T_flame_mask (fst (Texture_forward lib self vertices_world texture_images cams))
                = Some mask)"
proof -
  from init have "\<exists>fs. T_faces self = [fs] \<and>
      T_flame_mask self = Some (reduce_faces flame_mask fs [])"
    by (auto simp: Texture_Renderer_init_def and_then_def external_def Let_def
             split: sum.splits)
  then obtain fs where
    fs: "T_faces self = [fs]" and
    fm: "T_flame_mask self = Some (reduce_faces flame_mask fs [])"
    by blast
  let ?mask = "map (\<lambda>f. count_valid flame_mask f 0 = 3) fs"
  have mask: "T_flame_mask self = Some ?mask"
    using fm by (simp add: reduce_faces_map)
  have len: "length ?mask = length (T_faces self ! 0)"
    using fs by simp
  have marks: "?mask ! i \<longleftrightarrow> (\<forall>v \<in> set (T_faces self ! 0 ! i). v \<in> set flame_mask)"
    if "i < length ?mask" for i
  proof -
    from that have i: "i < length fs" by simp
    with tri fs have "length (fs ! i) = 3" by simp
    from count_valid_triangle [OF this] i fs show ?thesis by simp
  qed
  have keeps: "T_flame_mask (fst (Texture_forward lib self vertices_world texture_images cams))
                 = Some ?mask" for vertices_world texture_images cams
    using mask by (simp add: Texture_forward_def)
  from mask len marks keeps show ?thesis by blast
qed

theorem flame_mask_marks_faces_witness:
  "Texture_Renderer_init lib0 256 ''flame'' (Some [0, 1, 2]) ''cpu'' = Inr texture_renderer0 \<and>
   T_faces texture_renderer0 ! 0 = [[0, 1, 2], [1, 2, 3]] \<and>
   (\<exists>mask. T_flame_mask texture_renderer0 = Some mask \<and> length mask = 2 \<and>
      (mask ! 0 \<longleftrightarrow> True) \<and> (mask ! 1 \<longleftrightarrow> False))"
proof -
  have i1: "Texture_Renderer_init lib0 256 ''flame'' (Some [0, 1, 2]) ''cpu''
              = Inr texture_renderer0"
    by (simp add: Texture_Renderer_init_def os_path_join_def and_then_def external_def lib0_def
                  obj0_def texture_renderer0_def)
  have fs: "T_faces texture_renderer0 ! 0 = [[0, 1, 2], [1, 2, 3]]"
    by (simp add: texture_renderer0_def)
  have tri: "\<forall>f \<in> set (T_faces texture_renderer0 ! 0). length f = 3"
    by (simp add: fs)
  from flame_mask_marks_faces [OF i1 tri] obtain mask where
    m: "T_flame_mask texture_renderer0 = Some mask"
       "length mask = length (T_faces texture_renderer0 ! 0)"
       "\<forall>i < length mask.
          mask ! i \<longleftrightarrow> (\<forall>v \<in> set (T_faces texture_renderer0 ! 0 ! i). v \<in> set [0, 1, 2])"
    by blast
  from m(2) fs have len: "length mask = 2" by simp
  with m(3) fs have "mask ! 0 \<longleftrightarrow> True" "mask ! 1 \<longleftrightarrow> False" by auto
  with i1 fs m(1) len show ?thesis by blast
qed

text \<open>
  C8. The third output of \<^verbatim>\<open>Texture_Renderer.forward\<close> is \<open>None\<close> if and only if the
  renderer was constructed without a region mask, on every call that returns. Without a
  mask the silhouette step has the value \<open>None\<close>; it raises nothing.
\<close>

theorem masks_face_None_iff_no_mask:
  assumes init: "Texture_Renderer_init lib image_size flame_path flame_mask device = Inr self"
  shows "(\<forall>vertices_world texture_images cams self' images masks_all mf.
            Texture_forward lib self vertices_world texture_images cams
              = (self', Inr (images, masks_all, mf)) \<longrightarrow>
            (mf = None \<longleftrightarrow> flame_mask = None)) \<and>
         (flame_mask = None \<longrightarrow>
            (\<forall>vertices_world faces cams.
               masks_face lib self vertices_world faces cams = Inr None))"
proof (intro conjI allI impI)
  fix vertices_world texture_images cams self' images masks_all mf
  assume "Texture_forward lib self vertices_world texture_images cams
            = (self', Inr (images, masks_all, mf))"
  from Texture_forward_Inr [OF this]
  obtain fs where "masks_face lib self vertices_world fs cams = Inr mf" by blast
  from masks_face_Inr_None [OF this] Texture_Renderer_init_flame_mask [OF init]
  show "mf = None \<longleftrightarrow> flame_mask = None" by simp
next
  fix vertices_world faces cams
  assume "flame_mask = None"
  with Texture_Renderer_init_flame_mask [OF init] have "T_flame_mask self = None" by simp
  then show "masks_face lib self vertices_world faces cams = Inr None"
    by (rule masks_face_None)
qed

theorem masks_face_None_iff_no_mask_witness:
  "Texture_Renderer_init lib0 256 ''flame'' None ''cpu''
     = Inr (texture_renderer0\<lparr>T_flame_mask := None\<rparr>) \<and>
   Texture_forward lib0 (texture_renderer0\<lparr>T_flame_mask := None\<rparr>) triangle0 texture0 camera0
     = (texture_renderer0\<lparr>T_flame_mask := None\<rparr>,
        Inr ([[[[1]], [[1 / 2]], [[0]]]], [[[[True]]]], None)) \<and>
   Texture_Renderer_init lib0 256 ''flame'' (Some [0, 1, 2]) ''cpu'' = Inr texture_renderer0 \<and>
   Texture_forward lib0 texture_renderer0 triangle0 texture0 camera0
     = (texture_renderer0, Inr ([[[[1]], [[1 / 2]], [[0]]]], [[[[True]]]], Some [[[[True]]]])) \<and>
   masks_face lib0 (texture_renderer0\<lparr>T_flame_mask := None\<rparr>) triangle0 [] camera0 = Inr None"
proof -
  have i0: "Texture_Renderer_init lib0 256 ''flame'' None ''cpu''
              = Inr (texture_renderer0\<lparr>T_flame_mask := None\<rparr>)"
    by (simp add: Texture_Renderer_init_def os_path_join_def and_then_def external_def lib0_def
                  obj0_def texture_renderer0_def)
  have i1: "Texture_Renderer_init lib0 256 ''flame'' (Some [0, 1, 2]) ''cpu''
              = Inr texture_renderer0"
    by (simp add: Texture_Renderer_init_def os_path_join_def and_then_def external_def lib0_def
                  obj0_def texture_renderer0_def)
  have f0: "Texture_forward lib0 (texture_renderer0\<lparr>T_flame_mask := None\<rparr>) triangle0 texture0
              camera0
            = (texture_renderer0\<lparr>T_flame_mask := None\<rparr>,
               Inr ([[[[1]], [[1 / 2]], [[0]]]], [[[[True]]]], None))"
    by (simp add: Texture_forward_def masks_face_def and_then_def external_def lib0_def
                  triangle0_def permute_rgb_def permute_1_def slice_rgb_def slice_alpha_def
                  alpha_mask_def map4_def expand_def texture0_def texture_renderer0_def)
  have f1: "Texture_forward lib0 texture_renderer0 triangle0 texture0 camera0
            = (texture_renderer0,
               Inr ([[[[1]], [[1 / 2]], [[0]]]], [[[[True]]]], Some [[[[True]]]]))"
    by (simp add: Texture_forward_def masks_face_def and_then_def external_def lib0_def
                  triangle0_def permute_rgb_def permute_1_def slice_rgb_def slice_alpha_def
                  alpha_mask_def map4_def expand_def texture0_def texture_renderer0_def
                  mask_select_def)
  show ?thesis
    using masks_face_None_iff_no_mask [OF i0] masks_face_None_iff_no_mask [OF i1] i0 i1 f0 f1
    by simp
qed


section \<open>The point cloud of Point\_Renderer\<close>

lemma expand_Inr:
  assumes "length ex = 1 \<or> length ex = n"
  shows "\<exists>exs. expand n ex = Inr exs \<and> length exs = n \<and> set exs \<subseteq> set ex"
proof (cases "length ex = n")
  case True
  then show ?thesis by (simp add: expand_def)
next
  case False
  with assms have "length ex = 1" by simp
  then obtain e where "ex = [e]" by (cases ex) auto
  with False show ?thesis by (auto simp: expand_def)
qed

lemma randperm_take:
  assumes "distinct p" and "set p = {..<N}"
  shows "distinct (take k p) \<and> set (take k p) \<subseteq> {..<N} \<and> length (take k p) = min k N"
proof -
  from assms have "length p = N"
    using distinct_card [of p] by simp
  with assms show ?thesis
    using set_take_subset [of k p] by (auto simp: min_def)
qed

lemma index_select_Inr:
  assumes "\<forall>b \<in> set t. length b = N" and "set idx \<subseteq> {..<N}"
  shows "index_select t idx = Inr (map (\<lambda>b. map (\<lambda>i. b ! i) idx) t)"
  using assms by (auto simp: index_select_def list_all_iff)

lemma length_linspace: "length (linspace a b n) = n"
  by (simp add: linspace_def)

lemma nth_linspace:
  assumes "i < n"
  shows "linspace 0 1 n ! i = (if n = 1 then 0 else real i / real (n - 1))"
  using assms by (auto simp: linspace_def)

lemma linspace_unit:
  assumes "x \<in> set (linspace 0 1 n)"
  shows "0 \<le> x \<and> x \<le> 1"
  using assms by (auto simp: linspace_def divide_le_eq_1 split: if_splits)

lemma length_cod: "length (cod n) = 3 * n"
  by (simp add: cod_def Let_def length_linspace)

lemma shape1_nonempty: "t \<noteq> [] \<Longrightarrow> shape1 t = length (t ! 0)"
  by (cases t) (simp_all add: shape1_def)


lemma cod_axes:
  "cod n =
     map (\<lambda>i. (if n = 1 then 0 else real i / real (n - 1), 0, 0)) [0..<n] @
     map (\<lambda>i. (0, if n = 1 then 0 else real i / real (n - 1), 0)) [0..<n] @
     map (\<lambda>i. (0, 0, if n = 1 then 0 else real i / real (n - 1))) [0..<n]"
  by (simp add: cod_def linspace_def)

lemma point_cloud_Inr:
  assumes "index_select pts (take 10000 randperm) = Inr verts1"
      and "(case ex_points of
              None \<Rightarrow> Inr verts1
            | Some ex \<Rightarrow>
                and_then (expand (length verts1) ex) (\<lambda>exs. Inr (map2 (@) verts1 exs)))
           = Inr verts2"
  shows "\<exists>cloud.
           point_cloud pts coords ex_points randperm rand = Inr cloud \<and>
           pc_points cloud =
             (if coords then map (\<lambda>b. b @ cod (shape1 verts2 div 10)) verts2 else verts2)"
  using assms by (simp add: point_cloud_def and_then_def Let_def)

lemma extra_points:
  assumes "ex_points = None \<longrightarrow> M = 0"
      and "\<forall>ex. ex_points = Some ex \<longrightarrow>
             (length ex = 1 \<or> length ex = length verts1) \<and> (\<forall>e \<in> set ex. length e = M)"
  shows "\<exists>verts2 exs.
           (case ex_points of
              None \<Rightarrow> Inr verts1
            | Some ex \<Rightarrow>
                and_then (expand (length verts1) ex) (\<lambda>exs. Inr (map2 (@) verts1 exs)))
           = Inr verts2 \<and>
           length verts2 = length verts1 \<and> length exs = length verts1 \<and>
           (\<forall>ex. ex_points = Some ex \<longrightarrow> expand (length verts1) ex = Inr exs) \<and>
           (\<forall>b < length verts1. length (exs ! b) = M \<and> verts2 ! b = verts1 ! b @ exs ! b)"
proof (cases ex_points)
  case None
  with assms have "M = 0" by simp
  with None show ?thesis
    by (intro exI [of _ verts1] exI [of _ "replicate (length verts1) []"]) simp
next
  case (Some ex)
  with assms have shape: "length ex = 1 \<or> length ex = length verts1"
    and len: "\<forall>e \<in> set ex. length e = M" by simp_all
  from expand_Inr [OF shape] obtain exs where
    exs: "expand (length verts1) ex = Inr exs" "length exs = length verts1" "set exs \<subseteq> set ex"
    by blast
  from exs(2,3) len have "\<forall>b < length verts1. length (exs ! b) = M"
    by (metis nth_mem subsetD)
  with Some exs show ?thesis
    by (intro exI [of _ "map2 (@) verts1 exs"] exI [of _ exs]) (simp add: and_then_def)
qed

text \<open>
  C4. On a batch of point sets of \<open>N\<close> points each, with \<^verbatim>\<open>randperm\<close> a permutation of
  \<open>0, \<dots>, N - 1\<close> and extra points of \<open>M\<close> points per batch element (\<open>M = 0\<close> without
  \<^verbatim>\<open>ex_points\<close>), \<^verbatim>\<open>forward\<close> hands to the points renderer a cloud that has, in every
  batch element \<open>b\<close>: the points of \<open>b\<close> at the first \<open>min 10000 N\<close> indices of the
  permutation, which are distinct and the same for every \<open>b\<close>; then the extra points;
  then, with \<^verbatim>\<open>coords\<close>, the axis points \<open>cod n\<close> for \<open>n = (min 10000 N + M) div 10\<close>, one
  tenth of the points so far: \<open>n\<close> points on each of the three coordinate axes, at
  \<open>i / (n - 1)\<close> for \<open>i = 0, \<dots>, n - 1\<close>.
\<close>

theorem point_cloud_contents:
  assumes rect: "\<forall>b \<in> set pts. length b = N"
      and perm: "distinct randperm" "set randperm = {..<N}"
      and ex_None: "ex_points = None \<longrightarrow> M = 0"
      and ex_Some: "\<forall>ex. ex_points = Some ex \<longrightarrow>
                      (length ex = 1 \<or> length ex = length pts) \<and> (\<forall>e \<in> set ex. length e = M)"
  shows "\<exists>cloud exs.
           point_cloud pts coords ex_points randperm rand = Inr cloud \<and>
           length (pc_points cloud) = length pts \<and>
           length (take 10000 randperm) = min 10000 N \<and>
           distinct (take 10000 randperm) \<and> set (take 10000 randperm) \<subseteq> {..<N} \<and>
           length exs = length pts \<and>
           (\<forall>ex. ex_points = Some ex \<longrightarrow> expand (length pts) ex = Inr exs) \<and>
           (\<forall>b < length pts.
              length (exs ! b) = M \<and>
              pc_points cloud ! b =
                map (\<lambda>i. pts ! b ! i) (take 10000 randperm) @ exs ! b @
                (if coords then cod ((min 10000 N + M) div 10) else []) \<and>
              length (pc_points cloud ! b) =
                min 10000 N + M + (if coords then 3 * ((min 10000 N + M) div 10) else 0)) \<and>
           (\<forall>lib self h D E A. \<exists>r h' c.
              snd (snd (Point_forward lib self h pts D E A coords ex_points randperm rand)) =
                and_then (external (points_renderer lib r h' c cloud))
                  (\<lambda>images. Inr (map4 (\<lambda>x. x * 255) (permute_rgb images)))) \<and>
           (\<forall>n. cod n =
              map (\<lambda>i. (if n = 1 then 0 else real i / real (n - 1), 0, 0)) [0..<n] @
              map (\<lambda>i. (0, if n = 1 then 0 else real i / real (n - 1), 0)) [0..<n] @
              map (\<lambda>i. (0, 0, if n = 1 then 0 else real i / real (n - 1))) [0..<n])"
proof -
  let ?idx = "take 10000 randperm"
  let ?verts1 = "map (\<lambda>b. map (\<lambda>i. b ! i) ?idx) pts"
  from randperm_take [OF perm, of 10000]
  have idx: "distinct ?idx" "set ?idx \<subseteq> {..<N}" "length ?idx = min 10000 N"
    by simp_all
  from index_select_Inr [OF rect idx(2)]
  have sel: "index_select pts ?idx = Inr ?verts1" .
  from ex_Some have ex_Some': "\<forall>ex. ex_points = Some ex \<longrightarrow>
      (length ex = 1 \<or> length ex = length ?verts1) \<and> (\<forall>e \<in> set ex. length e = M)"
    by simp
  from extra_points [OF ex_None ex_Some'] obtain verts2 exs where
    v2: "(case ex_points of
            None \<Rightarrow> Inr ?verts1
          | Some ex \<Rightarrow>
              and_then (expand (length ?verts1) ex) (\<lambda>exs. Inr (map2 (@) ?verts1 exs)))
         = Inr verts2"
    and len2: "length verts2 = length pts" and lenx: "length exs = length pts"
    and exp: "\<forall>ex. ex_points = Some ex \<longrightarrow> expand (length pts) ex = Inr exs"
    and nth2: "\<forall>b < length pts. length (exs ! b) = M \<and> verts2 ! b = ?verts1 ! b @ exs ! b"
    by auto
  from point_cloud_Inr [OF sel v2, of coords rand] obtain cloud where
    cloud: "point_cloud pts coords ex_points randperm rand = Inr cloud"
    and pts: "pc_points cloud =
                (if coords then map (\<lambda>b. b @ cod (shape1 verts2 div 10)) verts2 else verts2)"
    by blast
  have each: "length (exs ! b) = M \<and>
              pc_points cloud ! b =
                map (\<lambda>i. pts ! b ! i) ?idx @ exs ! b @
                (if coords then cod ((min 10000 N + M) div 10) else []) \<and>
              length (pc_points cloud ! b) =
                min 10000 N + M + (if coords then 3 * ((min 10000 N + M) div 10) else 0)"
    if b: "b < length pts" for b
  proof -
    from b nth2 have lb: "length (exs ! b) = M"
      and vb: "verts2 ! b = map (\<lambda>i. pts ! b ! i) ?idx @ exs ! b" by simp_all
    from b len2 have "verts2 \<noteq> []" by auto
    then have "shape1 verts2 = length (verts2 ! 0)" by (rule shape1_nonempty)
    also have "\<dots> = min 10000 N + M"
    proof -
      from b have "0 < length pts" by linarith
      with nth2 have "length (exs ! 0) = M"
        and "verts2 ! 0 = map (\<lambda>i. pts ! 0 ! i) ?idx @ exs ! 0" by simp_all
      with idx(3) show ?thesis by simp
    qed
    finally have sh: "shape1 verts2 = min 10000 N + M" .
    from b len2 pts vb sh
    have "pc_points cloud ! b =
            map (\<lambda>i. pts ! b ! i) ?idx @ exs ! b @
            (if coords then cod ((min 10000 N + M) div 10) else [])"
      by simp
    with lb idx(3) show ?thesis by (simp add: length_cod)
  qed
  have rendered: "\<exists>r h' c.
      snd (snd (Point_forward lib self h pts D E A coords ex_points randperm rand)) =
        and_then (external (points_renderer lib r h' c cloud))
          (\<lambda>images. Inr (map4 (\<lambda>x. x * 255) (permute_rgb images)))" for lib self h D E A
    using cloud by (auto simp: Point_forward_def and_then_def split: prod.splits)
  from pts len2 have "length (pc_points cloud) = length pts" by simp
  with cloud idx lenx exp each rendered cod_axes show ?thesis by blast
qed

theorem point_cloud_contents_witness:
  "\<exists>cloud.
     point_cloud points20 True (Some [[(9, 9, 9)]]) (rev [0..<20]) rand0 = Inr cloud \<and>
     length (pc_points cloud) = 2 \<and>
     length (pc_points cloud ! 0) = 27 \<and>
     take 3 (pc_points cloud ! 1) = [(19, 1, 0), (18, 1, 0), (17, 1, 0)] \<and>
     drop 20 (pc_points cloud ! 1) =
       [(9, 9, 9), (0, 0, 0), (1, 0, 0), (0, 0, 0), (0, 1, 0), (0, 0, 0), (0, 0, 1)]"
proof -
  have rect: "\<forall>b \<in> set points20. length b = 20"
    by (simp add: points20_def)
  have perm: "distinct (rev [0..<20])" "set (rev [0..<20]) = {..<20}"
    by (simp_all add: atLeast0LessThan)
  have ex_None: "Some [[(9, 9, 9 :: real)]] = (None :: vec3 list list option) \<longrightarrow> (1 :: nat) = 0"
    by simp
  have ex_Some: "\<forall>ex. Some [[(9, 9, 9)]] = Some ex \<longrightarrow>
      (length ex = 1 \<or> length ex = length points20) \<and> (\<forall>e \<in> set ex. length e = 1)"
    by simp
  have len: "length points20 = 2" by (simp add: points20_def)
  have p1: "points20 ! 1 = map (\<lambda>i. (real i, 1, 0)) [0..<20]"
    by (simp add: points20_def upt_rec)
  from point_cloud_contents [OF rect perm ex_None ex_Some, of True rand0]
  obtain cloud exs where
    c: "point_cloud points20 True (Some [[(9, 9, 9)]]) (rev [0..<20]) rand0 = Inr cloud"
    and l: "length (pc_points cloud) = length points20"
    and e: "expand (length points20) [[(9, 9, 9)]] = Inr exs"
    and each: "\<forall>b < length points20.
              length (exs ! b) = 1 \<and>
              pc_points cloud ! b =
                map (\<lambda>i. points20 ! b ! i) (take 10000 (rev [0..<20])) @ exs ! b @
                (if True then cod ((min 10000 20 + 1) div 10) else []) \<and>
              length (pc_points cloud ! b) =
                min 10000 20 + 1 + (if True then 3 * ((min 10000 20 + 1) div 10) else 0)"
    by blast
  from e len have exs: "exs = [[(9, 9, 9)], [(9, 9, 9)]]"
    by (simp add: expand_def numeral_2_eq_2)
  from len have b0: "0 < length points20" and b1: "1 < length points20" by simp_all
  from each [rule_format, OF b0]
  have "length (pc_points cloud ! 0) =
          min 10000 20 + 1 + (if True then 3 * ((min 10000 20 + 1) div 10) else 0)"
    by (rule conjunct2 [THEN conjunct2])
  then have l0: "length (pc_points cloud ! 0) = 27" by simp
  from each [rule_format, OF b1]
  have "pc_points cloud ! 1 =
          map (\<lambda>i. points20 ! 1 ! i) (take 10000 (rev [0..<20])) @ exs ! 1 @
          (if True then cod ((min 10000 20 + 1) div 10) else [])"
    by (rule conjunct2 [THEN conjunct1])
  then have "pc_points cloud ! 1 =
      map (\<lambda>i. points20 ! 1 ! i) (take 10000 (rev [0..<20])) @ exs ! 1 @ cod 2"
    by simp
  with exs p1 have p: "pc_points cloud ! 1 =
      map (\<lambda>i. (real i, 1, 0)) (rev [0..<20]) @ [(9, 9, 9)] @ cod 2"
    by simp
  have t: "take 3 (pc_points cloud ! 1) = [(19, 1, 0), (18, 1, 0), (17, 1, 0)]"
    unfolding p by (simp add: upt_rec rev_map [symmetric])
  have d: "drop 20 (pc_points cloud ! 1) =
       [(9, 9, 9), (0, 0, 0), (1, 0, 0), (0, 0, 0), (0, 1, 0), (0, 0, 0), (0, 0, 1)]"
    unfolding p by (simp add: cod_def linspace_def upt_rec)
  from c l len l0 t d show ?thesis by auto
qed


end
